theory Spec2Isabelle
  imports Complex_Main
begin

section \<open>Isochrone routing core of MariGeoRoute: a shallow embedding\<close>

text \<open>
  The theory embeds \<^verbatim>\<open>Isochrone/algorithms/isobased.py\<close> (class \<^verbatim>\<open>IsoBased\<close>) and the
  two speed conversions of \<^verbatim>\<open>WeatherRoutingTool/utils/unit_conversion.py\<close>.

  Conventions of the embedding.
  \<^item> Python floats are exact reals: rounding is not modelled, equality tests of the source
    (\<^verbatim>\<open>==\<close> on stored values) are equality of reals, and NaN appears only where the source
    can produce one from well-defined inputs (the statistic of an empty bin), as
    \<open>None\<close>.
  \<^item> An \<open>(M,N)\<close> numpy array is the list of its \<open>M\<close> rows, newest row first as the source
    keeps them; a 1-D array is a list.
  \<^item> Every \<^verbatim>\<open>raise\<close> of the source and every exception numpy raises on the modelled
    paths is a value \<open>Inl e\<close> of the result type \<open>error + 'a\<close>.
  \<^item> The geodesic solver, the weather provider, the ship parameters and the set
    iteration order of CPython are collaborators outside the repository's sources;
    they are parameters of the definitions that call them.
\<close>

subsection \<open>Errors\<close>

datatype error =
    ValueError
  | TypeError
  | IndexError
  | PrunedIndicesOutOfBounds

subsection \<open>Unit conversion\<close>

text \<open>\<^verbatim>\<open>return vals * 3600.0 / 1852.0\<close> and \<^verbatim>\<open>return vals * 1852.0 / 3600.0\<close>.\<close>

definition mps_to_knots :: "real \<Rightarrow> real" where
  "mps_to_knots vals = vals * 3600 / 1852"

definition knots_to_mps :: "real \<Rightarrow> real" where
  "knots_to_mps vals = vals * 1852 / 3600"

subsection \<open>numpy helpers\<close>

text \<open>
  \<^verbatim>\<open>np.repeat(a, k)\<close> on a 1-D array repeats every element \<open>k\<close> times in place;
  with \<^verbatim>\<open>axis=1\<close> it does so in every row. A negative \<open>k\<close> raises \<^verbatim>\<open>ValueError\<close>.
\<close>

definition repeat1 :: "nat \<Rightarrow> 'a list \<Rightarrow> 'a list" where
  "repeat1 k xs = concat (map (replicate k) xs)"

definition np_repeat :: "'a list \<Rightarrow> int \<Rightarrow> error + 'a list" where
  "np_repeat xs k = (if k < 0 then Inl ValueError else Inr (repeat1 (nat k) xs))"

definition np_repeat_axis1 :: "'a list list \<Rightarrow> int \<Rightarrow> error + 'a list list" where
  "np_repeat_axis1 m k = (if k < 0 then Inl ValueError else Inr (map (repeat1 (nat k)) m))"

text \<open>\<^verbatim>\<open>np.tile(a, n)\<close> on a 1-D array: \<open>n\<close> copies of the whole array in a row.\<close>

definition np_tile :: "'a list \<Rightarrow> nat \<Rightarrow> 'a list" where
  "np_tile xs n = concat (replicate n xs)"

text \<open>
  \<^verbatim>\<open>np.linspace(start, stop, num)\<close>: \<open>num\<close> evenly spaced samples with both ends
  included; one sample is \<open>start\<close>; a negative \<open>num\<close> raises \<^verbatim>\<open>ValueError\<close>.
\<close>

definition linspace_nat :: "real \<Rightarrow> real \<Rightarrow> nat \<Rightarrow> real list" where
  "linspace_nat a b n =
     (if n = 1 then [a]
      else map (\<lambda>j. a + real j * ((b - a) / real (n - 1))) [0..<n])"

definition np_linspace :: "real \<Rightarrow> real \<Rightarrow> int \<Rightarrow> error + real list" where
  "np_linspace a b num = (if num < 0 then Inl ValueError else Inr (linspace_nat a b (nat num)))"

text \<open>\<open>shape[1]\<close> of a matrix with at least one row; \<open>shape[0]\<close> is \<open>length\<close>.\<close>

definition ncols :: "'a list list \<Rightarrow> nat" where
  "ncols m = (case m of [] \<Rightarrow> 0 | r # _ \<Rightarrow> length r)"

text \<open>Row 0 of a matrix (\<^verbatim>\<open>a[0]\<close>, \<^verbatim>\<open>a[0, :]\<close>): \<^verbatim>\<open>IndexError\<close> without rows.\<close>

definition row0 :: "'a list list \<Rightarrow> error + 'a list" where
  "row0 m = (case m of [] \<Rightarrow> Inl IndexError | r # _ \<Rightarrow> Inr r)"


text \<open>
  Fancy indexing with a list of non-negative indices: \<^verbatim>\<open>v[idxs]\<close> and \<^verbatim>\<open>a[:, idxs]\<close>
  raise \<^verbatim>\<open>IndexError\<close> when an index is not below the length (the column count).
\<close>

definition take_idxs :: "'a list \<Rightarrow> nat list \<Rightarrow> error + 'a list" where
  "take_idxs v idxs =
     (if list_all (\<lambda>i. i < length v) idxs then Inr (map (\<lambda>i. v ! i) idxs) else Inl IndexError)"

definition take_cols :: "'a list list \<Rightarrow> nat list \<Rightarrow> error + 'a list list" where
  "take_cols m idxs =
     (if list_all (\<lambda>r. list_all (\<lambda>i. i < length r) idxs) m
      then Inr (map (\<lambda>r. map (\<lambda>i. r ! i) idxs) m) else Inl IndexError)"

subsection \<open>The state of \<^verbatim>\<open>IsoBased\<close>\<close>

text \<open>
  The attributes of the class, with those of its base class \<^verbatim>\<open>RoutingAlg\<close> that the
  methods read (\<open>count\<close>, \<open>start\<close>, \<open>finish\<close>). \<open>'sp\<close> is the type of the ship
  parameters (class \<^verbatim>\<open>ShipParams\<close>, not in the sources). The departure row of
  \<open>azimuth_per_step\<close> is \<^verbatim>\<open>None\<close>, hence the option type. Times are seconds.
\<close>

record 'sp iso_based =
  count :: nat
  start :: "real \<times> real"
  finish :: "real \<times> real"
  is_last_step :: bool
  is_pos_constraint_step :: bool
  start_temp :: "real \<times> real"
  finish_temp :: "real \<times> real"
  gcr_azi_temp :: real
  lats_per_step :: "real list list"
  lons_per_step :: "real list list"
  azimuth_per_step :: "real option list list"
  dist_per_step :: "real list list"
  shipparams_per_step :: 'sp
  starttime_per_step :: "real list list"
  current_azimuth :: "real list"
  current_variant :: "real list"
  full_dist_traveled :: "real list"
  full_time_traveled :: "real list"
  full_fuel_consumed :: "real list"
  time :: "real list"
  variant_segments :: int
  variant_increments_deg :: real
  expected_speed_kts :: int
  prune_sector_deg_half :: real
  prune_segments :: int

subsection \<open>\<^verbatim>\<open>check_settings\<close>\<close>

text \<open>
  Three tests in the source's order, each raising \<^verbatim>\<open>ValueError\<close>. \<^verbatim>\<open>/\<close> is true
  division, \<^verbatim>\<open>%\<close> is the floored remainder (\<open>mod\<close> on \<open>int\<close>).
\<close>

definition check_settings :: "'sp iso_based \<Rightarrow> error + unit" where
  "check_settings self =
     (if real_of_int (variant_segments self) / 2 * variant_increments_deg self
           \<ge> prune_sector_deg_half self then Inl ValueError
      else if variant_segments self mod 2 \<noteq> 0 then Inl ValueError
      else if prune_segments self mod 2 \<noteq> 0 then Inl ValueError
      else Inr ())"

subsection \<open>Sequencing of fallible steps\<close>

definition ebind :: "error + 'a \<Rightarrow> ('a \<Rightarrow> error + 'b) \<Rightarrow> error + 'b" where
  "ebind m f = (case m of Inl e \<Rightarrow> Inl e | Inr x \<Rightarrow> f x)"

subsection \<open>Collaborators\<close>

text \<open>
  The geodesic solver \<^verbatim>\<open>geovectorslib.geod\<close>, per point: \<open>inverse_pt\<close> maps two points to
  the distance \<^verbatim>\<open>s12\<close> and the forward azimuth \<^verbatim>\<open>azi1\<close>; \<open>direct_pt\<close> maps a point, an
  azimuth and a distance to \<^verbatim>\<open>lat2\<close>, \<^verbatim>\<open>lon2\<close>, \<^verbatim>\<open>azi2\<close>. The library applies them
  elementwise to arrays; the model does so for operands of one common length and
  returns \<^verbatim>\<open>ValueError\<close> otherwise (numpy's stretching of a one-element operand is
  not modelled: the class never passes one next to a longer operand when its
  containers have one column count).
\<close>

record geod =
  inverse_pt :: "real \<Rightarrow> real \<Rightarrow> real \<Rightarrow> real \<Rightarrow> real \<times> real"
  direct_pt :: "real \<Rightarrow> real \<Rightarrow> real \<Rightarrow> real \<Rightarrow> real \<times> real \<times> real"

record inverse_dict =
  s12 :: "real list"
  azi1 :: "real list"

record direct_dict =
  azi2 :: "real list"
  lat2 :: "real list"
  lon2 :: "real list"

definition geod_inverse ::
  "geod \<Rightarrow> real list \<Rightarrow> real list \<Rightarrow> real list \<Rightarrow> real list \<Rightarrow> error + inverse_dict" where
  "geod_inverse g lats1 lons1 lats2 lons2 =
     (if length lons1 = length lats1 \<and> length lats2 = length lats1 \<and> length lons2 = length lats1
      then Inr \<lparr>s12 = map (\<lambda>i. fst (inverse_pt g (lats1 ! i) (lons1 ! i) (lats2 ! i) (lons2 ! i)))
                         [0..<length lats1],
                azi1 = map (\<lambda>i. snd (inverse_pt g (lats1 ! i) (lons1 ! i) (lats2 ! i) (lons2 ! i)))
                         [0..<length lats1]\<rparr>
      else Inl ValueError)"

definition geod_direct ::
  "geod \<Rightarrow> real list \<Rightarrow> real list \<Rightarrow> real list \<Rightarrow> real list \<Rightarrow> error + direct_dict" where
  "geod_direct g lats lons azis dists =
     (if length lons = length lats \<and> length azis = length lats \<and> length dists = length lats
      then Inr \<lparr>azi2 = map (\<lambda>i. snd (snd (direct_pt g (lats ! i) (lons ! i) (azis ! i) (dists ! i))))
                          [0..<length lats],
                lat2 = map (\<lambda>i. fst (direct_pt g (lats ! i) (lons ! i) (azis ! i) (dists ! i)))
                          [0..<length lats],
                lon2 = map (\<lambda>i. fst (snd (direct_pt g (lats ! i) (lons ! i) (azis ! i) (dists ! i))))
                          [0..<length lats]\<rparr>
      else Inl ValueError)"

text \<open>
  The methods of \<^verbatim>\<open>ShipParams\<close> the class calls on \<open>shipparams_per_step\<close>. The class
  is not in the sources, so its methods are parameters.
\<close>

record 'sp shipparams_ops =
  sp_define_variants :: "int \<Rightarrow> 'sp \<Rightarrow> 'sp"
  sp_select :: "nat list \<Rightarrow> 'sp \<Rightarrow> 'sp"
  sp_flip :: "'sp \<Rightarrow> 'sp"

subsection \<open>Methods that the class defines twice\<close>

text \<open>
  The body of \<^verbatim>\<open>class IsoBased\<close> defines several methods twice, among them
  \<^verbatim>\<open>check_variant_def\<close> (lines 217 and 623), \<^verbatim>\<open>get_current_azimuth\<close> (400 and 635) and
  \<^verbatim>\<open>get_final_index\<close> (433 and 644).
  Python binds a name of a class body to its last definition, so the methods of an
  \<^verbatim>\<open>IsoBased\<close> object are the later ones, each a bare \<^verbatim>\<open>pass\<close> that returns \<^verbatim>\<open>None\<close>.
  The model keeps the source's name for the method the class has, and the suffix
  \<open>_shadowed\<close> for the earlier body that is never called.
\<close>

definition check_variant_def_shadowed :: "'sp iso_based \<Rightarrow> error + unit" where
  \<comment> \<open>Lines 217 to 229. \<^verbatim>\<open>raise '...'\<close> of a string is itself a \<^verbatim>\<open>TypeError\<close>.\<close>
  "check_variant_def_shadowed self =
     (if \<not> (ncols (lats_per_step self) = ncols (lons_per_step self) \<and>
             ncols (lats_per_step self) = ncols (azimuth_per_step self) \<and>
             ncols (lats_per_step self) = ncols (dist_per_step self))
      then Inl TypeError
      else if \<not> (length (lats_per_step self) = length (lons_per_step self) \<and>
                  length (lats_per_step self) = length (azimuth_per_step self) \<and>
                  length (lats_per_step self) = length (dist_per_step self) \<and>
                  length (lats_per_step self) = count self + 1)
      then Inl ValueError
      else Inr ())"

definition check_variant_def :: "'sp iso_based \<Rightarrow> error + unit" where
  \<comment> \<open>Lines 623 and 624: \<^verbatim>\<open>pass\<close>.\<close>
  "check_variant_def self = Inr ()"

definition get_current_azimuth_shadowed :: "'sp iso_based \<Rightarrow> real list" where
  \<comment> \<open>Lines 400 and 401.\<close>
  "get_current_azimuth_shadowed self = current_variant self"

definition get_current_azimuth :: "'sp iso_based \<Rightarrow> real list option" where
  \<comment> \<open>Lines 635 and 636: \<^verbatim>\<open>pass\<close>, the result is \<^verbatim>\<open>None\<close>.\<close>
  "get_current_azimuth self = None"

text \<open>\<^verbatim>\<open>np.argmax\<close>: the first index of the largest entry; \<^verbatim>\<open>ValueError\<close> on an empty array.\<close>

fun argmax_from :: "real list \<Rightarrow> nat \<Rightarrow> real \<Rightarrow> nat \<Rightarrow> nat" where
  "argmax_from [] i best bi = bi"
| "argmax_from (x # xs) i best bi =
     (if best < x then argmax_from xs (i + 1) x i else argmax_from xs (i + 1) best bi)"

definition np_argmax :: "real list \<Rightarrow> error + nat" where
  "np_argmax v = (case v of [] \<Rightarrow> Inl ValueError | x # xs \<Rightarrow> Inr (argmax_from xs 1 x 0))"

definition get_final_index_shadowed :: "'sp iso_based \<Rightarrow> error + nat" where
  \<comment> \<open>Lines 433 to 435.\<close>
  "get_final_index_shadowed self = np_argmax (full_dist_traveled self)"

definition get_final_index :: "'sp iso_based \<Rightarrow> nat option" where
  \<comment> \<open>Lines 644 and 645: \<^verbatim>\<open>pass\<close>, the result is \<^verbatim>\<open>None\<close>.\<close>
  "get_final_index self = None"

definition get_current_lats :: "'sp iso_based \<Rightarrow> error + real list" where
  \<comment> \<open>Line 403; the \<^verbatim>\<open>pass\<close> of line 112 is the earlier definition.\<close>
  "get_current_lats self = row0 (lats_per_step self)"

definition get_current_lons :: "'sp iso_based \<Rightarrow> error + real list" where
  \<comment> \<open>Line 406; the \<^verbatim>\<open>pass\<close> of line 115 is the earlier definition.\<close>
  "get_current_lons self = row0 (lons_per_step self)"

subsection \<open>\<^verbatim>\<open>define_variants\<close>\<close>

text \<open>
  The fan of heading offsets is \<^verbatim>\<open>np.linspace(-vs/2*inc, +vs/2*inc, vs+1)\<close>, tiled once
  per input route; the centre of each fan is the azimuth of the geodesic from the
  candidate's newest position to the temporary destination.
\<close>

definition define_variants ::
  "geod \<Rightarrow> 'sp shipparams_ops \<Rightarrow> 'sp iso_based \<Rightarrow> error + 'sp iso_based" where
  "define_variants g ops self =
     (let nof_input_routes = ncols (lats_per_step self);
          new_finish_one = replicate nof_input_routes (fst (finish_temp self));
          new_finish_two = replicate nof_input_routes (snd (finish_temp self));
          k = variant_segments self + 1;
          half = real_of_int (variant_segments self) / 2 * variant_increments_deg self
      in
      ebind (row0 (lats_per_step self)) (\<lambda>lats0.
      ebind (row0 (lons_per_step self)) (\<lambda>lons0.
      ebind (geod_inverse g lats0 lons0 new_finish_one new_finish_two) (\<lambda>new_azi.
      ebind (np_repeat_axis1 (lats_per_step self) k) (\<lambda>lats.
      ebind (np_repeat_axis1 (lons_per_step self) k) (\<lambda>lons.
      ebind (np_repeat_axis1 (dist_per_step self) k) (\<lambda>dists.
      ebind (np_repeat_axis1 (azimuth_per_step self) k) (\<lambda>azis.
      ebind (np_repeat_axis1 (starttime_per_step self) k) (\<lambda>starttimes.
      ebind (np_repeat (full_time_traveled self) k) (\<lambda>ftt.
      ebind (np_repeat (full_fuel_consumed self) k) (\<lambda>ffc.
      ebind (np_repeat (full_dist_traveled self) k) (\<lambda>fdt.
      ebind (np_repeat (time self) k) (\<lambda>tm.
      let self1 = self\<lparr>lats_per_step := lats, lons_per_step := lons, dist_per_step := dists,
                        azimuth_per_step := azis, starttime_per_step := starttimes,
                        shipparams_per_step :=
                          sp_define_variants ops (variant_segments self) (shipparams_per_step self),
                        full_time_traveled := ftt, full_fuel_consumed := ffc,
                        full_dist_traveled := fdt, time := tm\<rparr>
      in
      ebind (check_variant_def self1) (\<lambda>_.
      ebind (np_linspace (- half) half k) (\<lambda>delta_hdgs.
      ebind (np_repeat (azi1 new_azi) k) (\<lambda>centres.
      Inr (self1\<lparr>current_variant :=
                   map (\<lambda>(c, d). c - d) (zip centres (np_tile delta_hdgs nof_input_routes))\<rparr>
      )))))))))))))))))"

subsection \<open>Pruning\<close>

text \<open>
  \<^verbatim>\<open>scipy.stats.binned_statistic(x, values, statistic=np.nanmax, bins=edges)\<close> with an
  array of edges: bin \<open>i\<close> is the half-open interval from edge \<open>i\<close> to edge \<open>i+1\<close>, the
  last bin also holds its right edge, and a sample outside all bins is ignored. The
  statistic of an empty bin is NaN (\<open>None\<close>). The call raises \<^verbatim>\<open>ValueError\<close> when \<open>x\<close>
  and \<open>values\<close> differ in length, when there are fewer than two edges, and when the
  edges do not increase strictly. (The library also counts a sample into the last bin
  when it exceeds the right edge by less than its rounding tolerance; with exact reals
  that is the right edge itself.)
\<close>

definition in_bin :: "real list \<Rightarrow> nat \<Rightarrow> real \<Rightarrow> bool" where
  "in_bin edges i x =
     (edges ! i \<le> x \<and> (x < edges ! (i + 1) \<or> (i + 2 = length edges \<and> x = edges ! (i + 1))))"

definition bin_members :: "real list \<Rightarrow> nat \<Rightarrow> real list \<Rightarrow> nat list" where
  "bin_members edges i x = filter (\<lambda>j. in_bin edges i (x ! j)) [0..<length x]"

definition nanmax :: "real list \<Rightarrow> real option" where
  "nanmax vs = (case vs of [] \<Rightarrow> None | v # rest \<Rightarrow> Some (fold max rest v))"

definition binned_statistic :: "real list \<Rightarrow> real list \<Rightarrow> real list \<Rightarrow> error + real option list" where
  "binned_statistic x vals edges =
     (if length x = length vals \<and> 2 \<le> length edges \<and> sorted_wrt (<) edges
      then Inr (map (\<lambda>i. nanmax (map (\<lambda>j. vals ! j) (bin_members edges i x)))
                  [0..<length edges - 1])
      else Inl ValueError)"

text \<open>\<^verbatim>\<open>np.where(v == s)[0]\<close>: the indices of the entries equal to \<open>s\<close>, ascending.\<close>

definition where_eq :: "real list \<Rightarrow> real \<Rightarrow> nat list" where
  "where_eq v s = filter (\<lambda>j. v ! j = s) [0..<length v]"

text \<open>
  The loop of the \<^verbatim>\<open>trim\<close> branch over the bins. A bin whose statistic is 0 is skipped
  by \<^verbatim>\<open>continue\<close>; for a NaN statistic \<^verbatim>\<open>np.where\<close> finds nothing, \<^verbatim>\<open>[0][0]\<close> raises
  \<^verbatim>\<open>IndexError\<close> and the handler passes; otherwise the first index of the whole array
  \<open>full_dist_traveled\<close> whose entry equals the statistic is appended.
\<close>

fun trim_idxs :: "real list \<Rightarrow> real option list \<Rightarrow> nat list" where
  "trim_idxs fdt [] = []"
| "trim_idxs fdt (None # bin_stat) = trim_idxs fdt bin_stat"
| "trim_idxs fdt (Some s # bin_stat) =
     (if s = 0 then trim_idxs fdt bin_stat
      else (case where_eq fdt s of
              [] \<Rightarrow> trim_idxs fdt bin_stat
            | j # _ \<Rightarrow> j # trim_idxs fdt bin_stat))"

text \<open>The loop of the other branch: all indices whose entry equals the statistic.\<close>

fun all_idxs :: "real list \<Rightarrow> real option list \<Rightarrow> nat list" where
  "all_idxs fdt [] = []"
| "all_idxs fdt (None # bin_stat) = all_idxs fdt bin_stat"
| "all_idxs fdt (Some s # bin_stat) = where_eq fdt s @ all_idxs fdt bin_stat"

text \<open>\<^verbatim>\<open>except IndexError: raise Exception('Pruned indices running out of bounds.')\<close>\<close>

definition reraise_pruned :: "error + 'a \<Rightarrow> error + 'a" where
  "reraise_pruned r =
     (case r of Inl e \<Rightarrow> (if e = IndexError then Inl PrunedIndicesOutOfBounds else Inl e)
              | Inr x \<Rightarrow> Inr x)"

text \<open>
  \<open>list_set\<close> stands for \<^verbatim>\<open>list(set(idxs))\<close>: the distinct indices in the iteration
  order of a CPython set, which the language leaves open. The calls of the logger
  change no attribute and are left out.
\<close>

definition pruning ::
  "(nat list \<Rightarrow> nat list) \<Rightarrow> 'sp shipparams_ops \<Rightarrow> bool \<Rightarrow> real list \<Rightarrow> 'sp iso_based
     \<Rightarrow> error + 'sp iso_based" where
  "pruning list_set ops trim bins self =
     ebind (binned_statistic (current_variant self) (full_dist_traveled self) bins) (\<lambda>bin_stat.
     let idxs = list_set (if trim then trim_idxs (full_dist_traveled self) bin_stat
                          else all_idxs (full_dist_traveled self) bin_stat)
     in
     ebind (reraise_pruned (take_cols (lats_per_step self) idxs)) (\<lambda>lats.
     ebind (reraise_pruned (take_cols (lons_per_step self) idxs)) (\<lambda>lons.
     ebind (reraise_pruned (take_cols (azimuth_per_step self) idxs)) (\<lambda>azis.
     ebind (reraise_pruned (take_cols (dist_per_step self) idxs)) (\<lambda>dists.
     ebind (reraise_pruned (take_cols (starttime_per_step self) idxs)) (\<lambda>starttimes.
     ebind (reraise_pruned (take_idxs (current_variant self) idxs)) (\<lambda>variant.
     ebind (reraise_pruned (take_idxs (full_dist_traveled self) idxs)) (\<lambda>fdt.
     ebind (reraise_pruned (take_idxs (full_time_traveled self) idxs)) (\<lambda>ftt.
     ebind (reraise_pruned (take_idxs (full_fuel_consumed self) idxs)) (\<lambda>ffc.
     ebind (reraise_pruned (take_idxs (time self) idxs)) (\<lambda>tm.
     Inr (self\<lparr>lats_per_step := lats, lons_per_step := lons, azimuth_per_step := azis,
               dist_per_step := dists,
               shipparams_per_step := sp_select ops idxs (shipparams_per_step self),
               starttime_per_step := starttimes,
               current_azimuth := variant, current_variant := variant,
               full_dist_traveled := fdt, full_time_traveled := ftt,
               full_fuel_consumed := ffc, time := tm\<rparr>))))))))))))"

text \<open>
  The symmetry axis is the azimuth towards the temporary destination from the point
  reached from \<open>start_temp\<close> along \<open>gcr_azi_temp\<close> after the mean of
  \<open>full_dist_traveled\<close>. The mean of an empty array is NaN, which reaches the bin edges
  and makes \<^verbatim>\<open>binned_statistic\<close> raise.
\<close>

definition pruning_gcr_centered ::
  "geod \<Rightarrow> (nat list \<Rightarrow> nat list) \<Rightarrow> 'sp shipparams_ops \<Rightarrow> bool \<Rightarrow> 'sp iso_based
     \<Rightarrow> error + 'sp iso_based" where
  "pruning_gcr_centered g list_set ops trim self =
     (if full_dist_traveled self = [] then Inl ValueError
      else
        let mean_dist = sum_list (full_dist_traveled self) / real (length (full_dist_traveled self));
            gcr_point = direct_pt g (fst (start_temp self)) (snd (start_temp self))
                          (gcr_azi_temp self) mean_dist;
            new_azi = snd (inverse_pt g (fst gcr_point) (fst (snd gcr_point))
                             (fst (finish_temp self)) (snd (finish_temp self)))
        in
        ebind (np_repeat [new_azi] (prune_segments self + 1)) (\<lambda>azi0s.
        ebind (np_linspace (- prune_sector_deg_half self) (prune_sector_deg_half self)
                 (prune_segments self + 1)) (\<lambda>delta_hdgs.
        pruning list_set ops trim (sort (map (\<lambda>(a, d). a - d) (zip azi0s delta_hdgs))) self)))"

subsection \<open>Step propagation\<close>

text \<open>
  \<^verbatim>\<open>check_bearing\<close> returns the dictionary of the move and sets one of the two flags.
  The comparison \<^verbatim>\<open>dist_to_dest['s12'] < dist\<close> is elementwise, the argument
  \<^verbatim>\<open>dist\<close> (here \<open>dist_step\<close>) holding one distance per candidate.
\<close>

definition check_bearing ::
  "geod \<Rightarrow> real list \<Rightarrow> 'sp iso_based \<Rightarrow> error + (direct_dict \<times> 'sp iso_based)" where
  "check_bearing g dist_step self =
     ebind (get_current_lons self) (\<lambda>lons0.
     ebind (get_current_lats self) (\<lambda>lats0.
     let nvariants = length lons0 in
     ebind (geod_inverse g lats0 lons0 (replicate nvariants (fst (finish_temp self)))
              (replicate nvariants (snd (finish_temp self)))) (\<lambda>dist_to_dest.
     if length dist_step = nvariants then
       (let reaching_dest = list_ex (\<lambda>i. s12 dist_to_dest ! i < dist_step ! i) [0..<nvariants] in
        if reaching_dest then
          (let reached_final = (fst (finish_temp self) = fst (finish self) \<and>
                                snd (finish_temp self) = snd (finish self))
           in Inr (\<lparr>azi2 = azi1 dist_to_dest,
                     lat2 = replicate nvariants (fst (finish_temp self)),
                     lon2 = replicate nvariants (snd (finish_temp self))\<rparr>,
                   if reached_final then self\<lparr>is_last_step := True\<rparr>
                   else self\<lparr>is_pos_constraint_step := True\<rparr>))
        else ebind (geod_direct g lats0 lons0 (current_variant self) dist_step) (\<lambda>move.
             Inr (move, self)))
     else Inl ValueError)))"



text \<open>
  The weather provider: \<^verbatim>\<open>wt.get_wind_function((lats, lons), time)\<close> returns the true
  wind angles and speeds at the positions, for the one time it is given.
\<close>

record winds =
  twa :: "real list"
  tws :: "real list"

definition get_wind_functions ::
  "(real list \<times> real list \<Rightarrow> real \<Rightarrow> winds) \<Rightarrow> 'sp iso_based \<Rightarrow> error + winds" where
  "get_wind_functions wt self =
     ebind (get_current_lats self) (\<lambda>lats0.
     ebind (get_current_lons self) (\<lambda>lons0.
     (case time self of [] \<Rightarrow> Inl IndexError | t0 # _ \<Rightarrow> Inr (wt (lats0, lons0) t0))))"

text \<open>
  Lines 171 to 174 of \<^verbatim>\<open>move_boat_direct\<close>: the dictionary \<^verbatim>\<open>wind\<close> that is handed to
  the boat. Its angle is \<^verbatim>\<open>twa - self.get_current_azimuth()\<close>; subtracting \<^verbatim>\<open>None\<close>
  from an array raises \<^verbatim>\<open>TypeError\<close>, and no later statement of the method runs.
\<close>

definition np_subtract :: "real list \<Rightarrow> real list option \<Rightarrow> error + real list" where
  "np_subtract a b =
     (case b of None \<Rightarrow> Inl TypeError
      | Some bs \<Rightarrow> (if length bs = length a then Inr (map (\<lambda>(x, y). x - y) (zip a bs))
                    else Inl ValueError))"

definition move_boat_direct_wind ::
  "(real list \<times> real list \<Rightarrow> real \<Rightarrow> winds) \<Rightarrow> 'sp iso_based \<Rightarrow> error + winds" where
  "move_boat_direct_wind wt self =
     ebind (get_wind_functions wt self) (\<lambda>w.
     ebind (np_subtract (twa w) (get_current_azimuth self)) (\<lambda>rel.
     Inr \<lparr>twa = rel, tws = tws w\<rparr>))"

subsection \<open>Termination\<close>

text \<open>
  \<^verbatim>\<open>np.flip(a, 0)\<close> reverses the rows. \<^verbatim>\<open>RoutingAlg.terminate\<close>, which builds the route,
  is not in the sources and is a parameter; \<^verbatim>\<open>check_isochrones\<close> is \<^verbatim>\<open>pass\<close>.
\<close>

definition terminate ::
  "'sp shipparams_ops \<Rightarrow> ('sp iso_based \<Rightarrow> 'route) \<Rightarrow> 'sp iso_based \<Rightarrow> 'route \<times> 'sp iso_based" where
  "terminate ops routing_alg_terminate self =
     (let self1 = self\<lparr>lats_per_step := rev (lats_per_step self),
                        lons_per_step := rev (lons_per_step self),
                        azimuth_per_step := rev (azimuth_per_step self),
                        dist_per_step := rev (dist_per_step self),
                        starttime_per_step := rev (starttime_per_step self),
                        shipparams_per_step := sp_flip ops (shipparams_per_step self)\<rparr>
      in (routing_alg_terminate self1, self1))"

subsection \<open>Concrete collaborators and states\<close>

text \<open>
  Inputs on which the theorems below are evaluated. \<open>chart_geod\<close> is a solver on a flat
  chart: the distance is the sum of the coordinate differences, the azimuth is 90
  degrees plus the latitude to be lost, and a move runs along the parallel.
  \<open>ascending_set\<close> lists a set in ascending order, one of the orders \<^verbatim>\<open>list(set(...))\<close>
  may produce. \<open>clock_wind\<close> reports the time of the query as the wind angle at every
  position.
\<close>

definition chart_geod :: geod where
  "chart_geod =
     \<lparr>inverse_pt = (\<lambda>la1 lo1 la2 lo2. (\<bar>la2 - la1\<bar> + \<bar>lo2 - lo1\<bar>, 90 + (la1 - la2))),
      direct_pt = (\<lambda>la lo az d. (la, lo + d, az))\<rparr>"

definition no_shipparams :: "unit shipparams_ops" where
  "no_shipparams =
     \<lparr>sp_define_variants = (\<lambda>_ sp. sp), sp_select = (\<lambda>_ sp. sp), sp_flip = (\<lambda>sp. sp)\<rparr>"

definition ascending_set :: "nat list \<Rightarrow> nat list" where
  "ascending_set idxs = sort (remdups idxs)"


definition two_routes :: "unit iso_based" where
  "two_routes =
     \<lparr>count = 0, start = (0, 0), finish = (0, 10), is_last_step = False,
      is_pos_constraint_step = False, start_temp = (0, 0), finish_temp = (0, 10),
      gcr_azi_temp = 90,
      lats_per_step = [[0, 1]], lons_per_step = [[0, 0]],
      azimuth_per_step = [[None, None]], dist_per_step = [[0, 0]],
      shipparams_per_step = (), starttime_per_step = [[0, 0]],
      current_azimuth = [30, 10], current_variant = [30, 10],
      full_dist_traveled = [5, 5], full_time_traveled = [0, 0], full_fuel_consumed = [0, 0],
      time = [0, 3600],
      variant_segments = 4, variant_increments_deg = 5, expected_speed_kts = 0,
      prune_sector_deg_half = 90, prune_segments = 4\<rparr>"

definition three_routes :: "unit iso_based" where
  "three_routes =
     \<lparr>count = 0, start = (0, 0), finish = (0, 10), is_last_step = False,
      is_pos_constraint_step = False, start_temp = (0, 0), finish_temp = (0, 10),
      gcr_azi_temp = 90,
      lats_per_step = [[0, 0, 0]], lons_per_step = [[5, 5, 5]],
      azimuth_per_step = [[None, None, None]], dist_per_step = [[0, 0, 0]],
      shipparams_per_step = (), starttime_per_step = [[0, 0, 0]],
      current_azimuth = [95, 100, 105], current_variant = [95, 100, 105],
      full_dist_traveled = [5, 5, 5], full_time_traveled = [0, 0, 0],
      full_fuel_consumed = [0, 0, 0], time = [0, 0, 0],
      variant_segments = 4, variant_increments_deg = 5, expected_speed_kts = 0,
      prune_sector_deg_half = 90, prune_segments = 2\<rparr>"

definition near_far :: "unit iso_based" where
  "near_far = two_routes\<lparr>lats_per_step := [[0, 0]], lons_per_step := [[8, 0]],
                          current_azimuth := [90, 90], current_variant := [90, 90]\<rparr>"

definition mirrored_routes :: "unit iso_based" where
  "mirrored_routes = two_routes\<lparr>current_azimuth := [100, 80], current_variant := [100, 80]\<rparr>"

section \<open>Unit conversion: mutual inverses\<close>

text \<open>
  Claim C10. For every speed \<open>v\<close>, converting metres per second to knots and back, or
  knots to metres per second and back, returns \<open>v\<close>: over exact arithmetic the two
  conversions (multiplication by 3600/1852 and by 1852/3600) are mutual inverses.
\<close>

theorem unit_conversion_inverse:
  "knots_to_mps (mps_to_knots v) = v \<and> mps_to_knots (knots_to_mps v) = v"
  by (simp add: knots_to_mps_def mps_to_knots_def)

section \<open>Configuration validation\<close>

text \<open>
  Claim C9. \<open>check_settings\<close> raises exactly when \<open>variant_segments\<close> is odd, or
  \<open>prune_segments\<close> is odd, or \<open>variant_segments/2 * variant_increments_deg\<close> is not
  strictly below \<open>prune_sector_deg_half\<close>; a configuration that meets all three
  conditions passes.
\<close>

theorem check_settings_passes_iff:
  "(check_settings self = Inr ()) =
     (even (variant_segments self) \<and> even (prune_segments self) \<and>
      real_of_int (variant_segments self) / 2 * variant_increments_deg self
        < prune_sector_deg_half self)"
  by (auto simp: check_settings_def even_iff_mod_2_eq_zero)

section \<open>Variant expansion\<close>

subsection \<open>Indexing into repeated and tiled arrays\<close>

lemma length_repeat1: "length (repeat1 k xs) = k * length xs"
  by (induction xs) (simp_all add: repeat1_def)

lemma nth_repeat1: "c < k * length xs \<Longrightarrow> repeat1 k xs ! c = xs ! (c div k)"
proof (induction xs arbitrary: c)
  case Nil
  then show ?case by simp
next
  case (Cons x xs)
  have unfold: "repeat1 k (x # xs) = replicate k x @ repeat1 k xs"
    by (simp add: repeat1_def)
  show ?case
  proof (cases "c < k")
    case True
    then show ?thesis by (simp add: unfold nth_append)
  next
    case False
    then have kc: "k \<le> c" by simp
    from Cons.prems have kpos: "0 < k" by (cases k) simp_all
    from Cons.prems kc have "c - k < k * length xs" by simp
    then have ih: "repeat1 k xs ! (c - k) = xs ! ((c - k) div k)" by (rule Cons.IH)
    have "c div k = Suc ((c - k) div k)"
      using kc kpos by (metis le_div_geq)
    then show ?thesis using False ih by (simp add: unfold nth_append)
  qed
qed

lemma length_np_tile: "length (np_tile xs n) = n * length xs"
  by (induction n) (simp_all add: np_tile_def)

lemma nth_np_tile: "c < n * length xs \<Longrightarrow> np_tile xs n ! c = xs ! (c mod length xs)"
proof (induction n arbitrary: c)
  case 0
  then show ?case by simp
next
  case (Suc n)
  have unfold: "np_tile xs (Suc n) = xs @ np_tile xs n"
    by (simp add: np_tile_def)
  show ?case
  proof (cases "c < length xs")
    case True
    then show ?thesis by (simp add: unfold nth_append)
  next
    case False
    then have le: "length xs \<le> c" by simp
    from Suc.prems le have "c - length xs < n * length xs" by simp
    then have "np_tile xs n ! (c - length xs) = xs ! ((c - length xs) mod length xs)"
      by (rule Suc.IH)
    then show ?thesis using False le by (simp add: unfold nth_append le_mod_geq)
  qed
qed

lemma length_linspace_nat: "length (linspace_nat a b n) = n"
  by (simp add: linspace_nat_def)

lemma nth_linspace_fan:
  assumes "j < Suc m"
  shows "linspace_nat (- (real m / 2 * inc)) (real m / 2 * inc) (Suc m) ! j
           = - (real m / 2 * inc) + real j * inc"
proof (cases "m = 0")
  case True
  with assms show ?thesis by (simp add: linspace_nat_def)
next
  case False
  then have "real m \<noteq> 0" by simp
  then have step: "(real m / 2 * inc - - (real m / 2 * inc)) / real m = inc"
    by (simp add: field_simps)
  have "linspace_nat (- (real m / 2 * inc)) (real m / 2 * inc) (Suc m) ! j
          = - (real m / 2 * inc) + real j * ((real m / 2 * inc - - (real m / 2 * inc)) / real m)"
    using assms False by (simp add: linspace_nat_def del: upt_Suc)
  then show ?thesis by (simp only: step)
qed

lemma ncols_map_repeat1: "ncols (map (repeat1 k) m) = k * ncols m"
  by (cases m) (simp_all add: ncols_def length_repeat1)

lemma geod_inverse_replicate:
  "length lo = length la \<Longrightarrow>
   geod_inverse g la lo (replicate (length la) x) (replicate (length la) y) =
     Inr \<lparr>s12 = map (\<lambda>i. fst (inverse_pt g (la ! i) (lo ! i) x y)) [0..<length la],
          azi1 = map (\<lambda>i. snd (inverse_pt g (la ! i) (lo ! i) x y)) [0..<length la]\<rparr>"
  by (simp add: geod_inverse_def cong: map_cong)

lemma define_variants_result:
  assumes rows: "lats_per_step self = la # las" "lons_per_step self = lo # los"
    and cols: "length lo = length la"
    and vs: "0 \<le> variant_segments self"
  shows "define_variants g ops self = Inr (self\<lparr>
           lats_per_step := map (repeat1 (nat (variant_segments self + 1))) (lats_per_step self),
           lons_per_step := map (repeat1 (nat (variant_segments self + 1))) (lons_per_step self),
           dist_per_step := map (repeat1 (nat (variant_segments self + 1))) (dist_per_step self),
           azimuth_per_step := map (repeat1 (nat (variant_segments self + 1))) (azimuth_per_step self),
           starttime_per_step := map (repeat1 (nat (variant_segments self + 1))) (starttime_per_step self),
           shipparams_per_step := sp_define_variants ops (variant_segments self) (shipparams_per_step self),
           full_time_traveled := repeat1 (nat (variant_segments self + 1)) (full_time_traveled self),
           full_fuel_consumed := repeat1 (nat (variant_segments self + 1)) (full_fuel_consumed self),
           full_dist_traveled := repeat1 (nat (variant_segments self + 1)) (full_dist_traveled self),
           time := repeat1 (nat (variant_segments self + 1)) (time self),
           current_variant :=
             map (\<lambda>(c, d). c - d)
               (zip (repeat1 (nat (variant_segments self + 1))
                       (map (\<lambda>i. snd (inverse_pt g (la ! i) (lo ! i) (fst (finish_temp self))
                                          (snd (finish_temp self)))) [0..<length la]))
                    (np_tile (linspace_nat
                                (- (real_of_int (variant_segments self) / 2 * variant_increments_deg self))
                                (real_of_int (variant_segments self) / 2 * variant_increments_deg self)
                                (nat (variant_segments self + 1)))
                             (length la)))\<rparr>)"
  using assms
  by (simp add: define_variants_def Let_def ebind_def row0_def geod_inverse_replicate ncols_def
      np_repeat_axis1_def np_repeat_def check_variant_def_def np_linspace_def)

text \<open>
  Claim C3. On a state whose newest rows of latitudes and longitudes have \<open>N\<close> entries,
  with \<open>variant_segments \<ge> 0\<close>, \<open>define_variants\<close> returns a state in which each of the
  five per-step containers is the old one with every column repeated
  \<open>variant_segments + 1\<close> times in place (so its column count is multiplied by that
  number and no entry is recomputed), and in which the heading of child \<open>j\<close> of input
  route \<open>i\<close> is \<open>centre - k * variant_increments_deg\<close> with \<open>k = j - variant_segments/2\<close>,
  \<open>j = 0, \<dots>, variant_segments\<close>, where \<open>centre\<close> is the azimuth of the geodesic from the
  route's newest position to the temporary destination.
\<close>

theorem define_variants_branching:
  assumes rows: "lats_per_step self = la # las" "lons_per_step self = lo # los"
    and cols: "length lo = length la"
    and vs: "0 \<le> variant_segments self"
  shows "\<exists>self'. define_variants g ops self = Inr self' \<and>
     lats_per_step self' = map (repeat1 (nat (variant_segments self + 1))) (lats_per_step self) \<and>
     lons_per_step self' = map (repeat1 (nat (variant_segments self + 1))) (lons_per_step self) \<and>
     azimuth_per_step self' = map (repeat1 (nat (variant_segments self + 1))) (azimuth_per_step self) \<and>
     dist_per_step self' = map (repeat1 (nat (variant_segments self + 1))) (dist_per_step self) \<and>
     starttime_per_step self' =
       map (repeat1 (nat (variant_segments self + 1))) (starttime_per_step self) \<and>
     ncols (lats_per_step self') = ncols (lats_per_step self) * nat (variant_segments self + 1) \<and>
     ncols (lons_per_step self') = ncols (lons_per_step self) * nat (variant_segments self + 1) \<and>
     ncols (azimuth_per_step self') = ncols (azimuth_per_step self) * nat (variant_segments self + 1) \<and>
     ncols (dist_per_step self') = ncols (dist_per_step self) * nat (variant_segments self + 1) \<and>
     ncols (starttime_per_step self') =
       ncols (starttime_per_step self) * nat (variant_segments self + 1) \<and>
     length (current_variant self') = length la * nat (variant_segments self + 1) \<and>
     (\<forall>i < length la. \<forall>j < nat (variant_segments self + 1).
        current_variant self' ! (i * nat (variant_segments self + 1) + j) =
          snd (inverse_pt g (la ! i) (lo ! i) (fst (finish_temp self)) (snd (finish_temp self)))
          - (real j - real_of_int (variant_segments self) / 2) * variant_increments_deg self)"
proof -
  define K where "K = nat (variant_segments self + 1)"
  define m where "m = nat (variant_segments self)"
  define inc where "inc = variant_increments_deg self"
  define centres where "centres =
    map (\<lambda>i. snd (inverse_pt g (la ! i) (lo ! i) (fst (finish_temp self)) (snd (finish_temp self))))
      [0..<length la]"
  define fan where "fan = linspace_nat (- (real m / 2 * inc)) (real m / 2 * inc) (Suc m)"
  have K: "K = Suc m" using vs by (simp add: K_def m_def nat_add_distrib)
  have m: "real_of_int (variant_segments self) = real m" using vs by (simp add: m_def)
  have len_fan: "length fan = K" by (simp add: fan_def length_linspace_nat K)
  have res: "define_variants g ops self = Inr (self\<lparr>
           lats_per_step := map (repeat1 K) (lats_per_step self),
           lons_per_step := map (repeat1 K) (lons_per_step self),
           dist_per_step := map (repeat1 K) (dist_per_step self),
           azimuth_per_step := map (repeat1 K) (azimuth_per_step self),
           starttime_per_step := map (repeat1 K) (starttime_per_step self),
           shipparams_per_step := sp_define_variants ops (variant_segments self) (shipparams_per_step self),
           full_time_traveled := repeat1 K (full_time_traveled self),
           full_fuel_consumed := repeat1 K (full_fuel_consumed self),
           full_dist_traveled := repeat1 K (full_dist_traveled self),
           time := repeat1 K (time self),
           current_variant := map (\<lambda>(c, d). c - d) (zip (repeat1 K centres) (np_tile fan (length la)))\<rparr>)"
    unfolding K_def centres_def fan_def inc_def
    using define_variants_result [OF rows cols vs, of g ops] K m by (simp add: K_def)
  have heading: "map (\<lambda>(c, d). c - d) (zip (repeat1 K centres) (np_tile fan (length la))) ! (i * K + j)
      = centres ! i - (real j - real m / 2) * inc" if i: "i < length la" and j: "j < K" for i j
  proof -
    have "i * K + j < Suc i * K" using j by simp
    also have "\<dots> \<le> length la * K" using i by (simp add: Suc_leI mult_le_mono1 del: mult_Suc)
    finally have bound: "i * K + j < length la * K" .
    have div: "(i * K + j) div K = i" and md: "(i * K + j) mod K = j" using j by simp_all
    have b1: "i * K + j < K * length centres" using bound by (simp add: centres_def mult.commute)
    have b2: "i * K + j < length la * length fan" using bound by (simp add: len_fan)
    have c: "repeat1 K centres ! (i * K + j) = centres ! i"
      using nth_repeat1 [OF b1] div by simp
    have t: "np_tile fan (length la) ! (i * K + j) = fan ! j"
      using nth_np_tile [OF b2] md by (simp add: len_fan)
    have f: "fan ! j = - (real m / 2 * inc) + real j * inc"
      unfolding fan_def using j K by (intro nth_linspace_fan) simp
    have "map (\<lambda>(c, d). c - d) (zip (repeat1 K centres) (np_tile fan (length la))) ! (i * K + j)
        = repeat1 K centres ! (i * K + j) - np_tile fan (length la) ! (i * K + j)"
      using bound by (simp add: length_repeat1 length_np_tile len_fan centres_def mult.commute)
    also have "\<dots> = centres ! i - (- (real m / 2 * inc) + real j * inc)"
      by (simp only: c t f)
    also have "\<dots> = centres ! i - (real j - real m / 2) * inc"
      by (simp add: algebra_simps)
    finally show ?thesis .
  qed
  show ?thesis
    unfolding K_def [symmetric]
    apply (rule exI, rule conjI, rule res)
    apply (simp add: ncols_map_repeat1 length_repeat1 length_np_tile len_fan mult.commute)
    apply (intro conjI allI impI)
     apply (simp add: centres_def mult.commute)
    using heading apply (simp add: centres_def m inc_def)
    done
qed

theorem define_variants_branching_witness:
  "\<exists>self'. define_variants chart_geod no_shipparams two_routes = Inr self' \<and>
     ncols (lats_per_step self') = 10 \<and> ncols (dist_per_step self') = 10 \<and>
     length (current_variant self') = 10 \<and>
     current_variant self' ! 0 = 100 \<and> current_variant self' ! 2 = 90 \<and>
     current_variant self' ! 4 = 80 \<and> current_variant self' ! 9 = 81"
proof -
  have h1: "lats_per_step two_routes = [0, 1] # []"
    and h2: "lons_per_step two_routes = [0, 0] # []"
    and h3: "length [0::real, 0] = length [0::real, 1]"
    and h4: "0 \<le> variant_segments two_routes"
    by (simp_all add: two_routes_def)
  from define_variants_branching [OF h1 h2 h3 h4, of chart_geod no_shipparams]
  obtain s where run: "define_variants chart_geod no_shipparams two_routes = Inr s"
    and nl: "ncols (lats_per_step s) = ncols (lats_per_step two_routes) * nat (variant_segments two_routes + 1)"
    and nd: "ncols (dist_per_step s) = ncols (dist_per_step two_routes) * nat (variant_segments two_routes + 1)"
    and len: "length (current_variant s) = length [0::real, 1] * nat (variant_segments two_routes + 1)"
    and fan: "\<forall>i < length [0::real, 1]. \<forall>j < nat (variant_segments two_routes + 1).
        current_variant s ! (i * nat (variant_segments two_routes + 1) + j) =
          snd (inverse_pt chart_geod ([0, 1] ! i) ([0, 0] ! i) (fst (finish_temp two_routes))
                 (snd (finish_temp two_routes)))
          - (real j - real_of_int (variant_segments two_routes) / 2) * variant_increments_deg two_routes"
    by blast
  have vs: "nat (variant_segments two_routes + 1) = 5" by (simp add: two_routes_def)
  from fan [rule_format, of 0 0] have a: "current_variant s ! 0 = 100"
    by (simp add: two_routes_def chart_geod_def)
  from fan [rule_format, of 0 2] have b: "current_variant s ! 2 = 90"
    by (simp add: two_routes_def chart_geod_def numeral_2_eq_2)
  from fan [rule_format, of 0 4] have c: "current_variant s ! 4 = 80"
    by (simp add: two_routes_def chart_geod_def)
  from fan [rule_format, of 1 4] have d: "current_variant s ! 9 = 81"
    by (simp add: two_routes_def chart_geod_def)
  from nl nd len have "ncols (lats_per_step s) = 10" "ncols (dist_per_step s) = 10"
    "length (current_variant s) = 10"
    by (simp_all add: two_routes_def ncols_def)
  with run a b c d show ?thesis by blast
qed

section \<open>Step propagation\<close>






lemma geod_inverse_to_point:
  "geod_inverse g la lo (replicate n x) (replicate m y) =
     (if length lo = length la \<and> n = length la \<and> m = length la
      then Inr \<lparr>s12 = map (\<lambda>i. fst (inverse_pt g (la ! i) (lo ! i) x y)) [0..<length la],
                azi1 = map (\<lambda>i. snd (inverse_pt g (la ! i) (lo ! i) x y)) [0..<length la]\<rparr>
      else Inl ValueError)"
  by (simp add: geod_inverse_def cong: map_cong)

lemma list_ex_upt: "list_ex P [0..<n] = (\<exists>i<n. P i)"
  by (auto simp: list_ex_iff)

text \<open>
  Claim C2, as the code has it. If the geodesic distance to the temporary destination
  is below the step distance for at least one candidate, \<open>check_bearing\<close> moves every
  candidate to the destination point, with the azimuth of the inverse geodesic from
  its position, and sets \<open>is_last_step\<close> when the temporary destination is the final
  one and \<open>is_pos_constraint_step\<close> otherwise (leaving \<open>is_last_step\<close> as it was). If no
  candidate is that close, every candidate moves by the direct geodesic along its
  current heading over its step distance, and no flag changes.
\<close>

theorem check_bearing_all_or_none:
  assumes rows: "lats_per_step self = la # las" "lons_per_step self = lo # los"
    and lens: "length lo = length la" "length dist_step = length la"
      "length (current_variant self) = length la"
  shows "check_bearing g dist_step self =
    (if \<exists>i < length la.
          fst (inverse_pt g (la ! i) (lo ! i) (fst (finish_temp self)) (snd (finish_temp self)))
            < dist_step ! i
     then Inr (\<lparr>azi2 = map (\<lambda>i. snd (inverse_pt g (la ! i) (lo ! i) (fst (finish_temp self))
                                        (snd (finish_temp self)))) [0..<length la],
                 lat2 = replicate (length la) (fst (finish_temp self)),
                 lon2 = replicate (length la) (snd (finish_temp self))\<rparr>,
               if finish_temp self = finish self then self\<lparr>is_last_step := True\<rparr>
               else self\<lparr>is_pos_constraint_step := True\<rparr>)
     else Inr (\<lparr>azi2 = map (\<lambda>i. snd (snd (direct_pt g (la ! i) (lo ! i) (current_variant self ! i)
                                             (dist_step ! i)))) [0..<length la],
                 lat2 = map (\<lambda>i. fst (direct_pt g (la ! i) (lo ! i) (current_variant self ! i)
                                        (dist_step ! i))) [0..<length la],
                 lon2 = map (\<lambda>i. fst (snd (direct_pt g (la ! i) (lo ! i) (current_variant self ! i)
                                             (dist_step ! i)))) [0..<length la]\<rparr>,
               self))"
proof -
  let ?s12 = "map (\<lambda>i. fst (inverse_pt g (la ! i) (lo ! i) (fst (finish_temp self))
                             (snd (finish_temp self)))) [0..<length la]"
  have unfolded: "check_bearing g dist_step self =
    (if list_ex (\<lambda>i. ?s12 ! i < dist_step ! i) [0..<length la]
     then Inr (\<lparr>azi2 = map (\<lambda>i. snd (inverse_pt g (la ! i) (lo ! i) (fst (finish_temp self))
                                        (snd (finish_temp self)))) [0..<length la],
                 lat2 = replicate (length la) (fst (finish_temp self)),
                 lon2 = replicate (length la) (snd (finish_temp self))\<rparr>,
               if fst (finish_temp self) = fst (finish self) \<and>
                  snd (finish_temp self) = snd (finish self)
               then self\<lparr>is_last_step := True\<rparr>
               else self\<lparr>is_pos_constraint_step := True\<rparr>)
     else Inr (\<lparr>azi2 = map (\<lambda>i. snd (snd (direct_pt g (la ! i) (lo ! i) (current_variant self ! i)
                                             (dist_step ! i)))) [0..<length la],
                 lat2 = map (\<lambda>i. fst (direct_pt g (la ! i) (lo ! i) (current_variant self ! i)
                                        (dist_step ! i))) [0..<length la],
                 lon2 = map (\<lambda>i. fst (snd (direct_pt g (la ! i) (lo ! i) (current_variant self ! i)
                                             (dist_step ! i)))) [0..<length la]\<rparr>,
               self))"
    using rows lens
    by (simp add: check_bearing_def get_current_lons_def get_current_lats_def row0_def
        ebind_def geod_inverse_to_point geod_direct_def Let_def
        cong: if_cong)
  have reach: "list_ex (\<lambda>i. ?s12 ! i < dist_step ! i) [0..<length la]
        = (\<exists>i < length la.
             fst (inverse_pt g (la ! i) (lo ! i) (fst (finish_temp self)) (snd (finish_temp self)))
               < dist_step ! i)"
    by (simp add: list_ex_upt cong: conj_cong)
  show ?thesis
    by (simp only: unfolded reach prod_eq_iff [symmetric])
qed

lemma check_bearing_near_far:
  "check_bearing chart_geod [5, 5] near_far =
     Inr (\<lparr>azi2 = [90, 90], lat2 = [0, 0], lon2 = [10, 10]\<rparr>, near_far\<lparr>is_last_step := True\<rparr>)"
  by (simp add: check_bearing_def get_current_lons_def get_current_lats_def row0_def
      ebind_def geod_inverse_to_point Let_def near_far_def two_routes_def chart_geod_def)

theorem check_bearing_all_or_none_witness:
  "check_bearing chart_geod [5, 5] near_far =
     Inr (\<lparr>azi2 = [90, 90], lat2 = [0, 0], lon2 = [10, 10]\<rparr>, near_far\<lparr>is_last_step := True\<rparr>)"
proof -
  have h1: "lats_per_step near_far = [0, 0] # []"
    and h2: "lons_per_step near_far = [8, 0] # []"
    and h3: "length [8::real, 0] = length [0::real, 0]"
    and h4: "length [5::real, 5] = length [0::real, 0]"
    and h5: "length (current_variant near_far) = length [0::real, 0]"
    by (simp_all add: near_far_def two_routes_def)
  have reach: "\<exists>i < length [0::real, 0].
      fst (inverse_pt chart_geod ([0, 0] ! i) ([8, 0] ! i) (fst (finish_temp near_far))
             (snd (finish_temp near_far))) < [5, 5] ! i"
    by (rule exI [of _ 0]) (simp add: chart_geod_def near_far_def two_routes_def)
  have fin: "finish_temp near_far = finish near_far"
    by (simp add: near_far_def two_routes_def)
  have "check_bearing chart_geod [5, 5] near_far =
      Inr (\<lparr>azi2 = map (\<lambda>i. snd (inverse_pt chart_geod ([0, 0] ! i) ([8, 0] ! i)
                                   (fst (finish_temp near_far)) (snd (finish_temp near_far))))
                       [0..<length [0::real, 0]],
             lat2 = replicate (length [0::real, 0]) (fst (finish_temp near_far)),
             lon2 = replicate (length [0::real, 0]) (snd (finish_temp near_far))\<rparr>,
           near_far\<lparr>is_last_step := True\<rparr>)"
    using check_bearing_all_or_none [OF h1 h2 h3 h4 h5, of chart_geod] reach fin
    by (simp only: if_True simp_thms)
  then show ?thesis
    by (simp add: chart_geod_def near_far_def two_routes_def)
qed

text \<open>
  The per-candidate reading of claim C2 fails: with one candidate 2 and the other 10
  away from the destination and a step distance of 5, the far candidate is moved
  onto the destination as well instead of 5 along its heading.
\<close>

theorem check_bearing_per_candidate_counterexample:
  "\<not> (\<forall>i < 2. \<exists>m s. check_bearing chart_geod [5, 5] near_far = Inr (m, s) \<and>
        (lat2 m ! i, lon2 m ! i) =
          (if fst (inverse_pt chart_geod ([0, 0] ! i) ([8, 0] ! i) 0 10) < [5, 5] ! i
           then (0, 10)
           else (fst (direct_pt chart_geod ([0, 0] ! i) ([8, 0] ! i) ([90, 90] ! i) ([5, 5] ! i)),
                 fst (snd (direct_pt chart_geod ([0, 0] ! i) ([8, 0] ! i) ([90, 90] ! i)
                             ([5, 5] ! i))))))"
proof
  assume claim: "\<forall>i < 2. \<exists>m s. check_bearing chart_geod [5, 5] near_far = Inr (m, s) \<and>
        (lat2 m ! i, lon2 m ! i) =
          (if fst (inverse_pt chart_geod ([0, 0] ! i) ([8, 0] ! i) 0 10) < [5, 5] ! i
           then (0, 10)
           else (fst (direct_pt chart_geod ([0, 0] ! i) ([8, 0] ! i) ([90, 90] ! i) ([5, 5] ! i)),
                 fst (snd (direct_pt chart_geod ([0, 0] ! i) ([8, 0] ! i) ([90, 90] ! i)
                             ([5, 5] ! i)))))"
  have "(1::nat) < 2" by simp
  from claim [rule_format, OF this] obtain m s
    where run: "check_bearing chart_geod [5, 5] near_far = Inr (m, s)"
      and pos: "(lat2 m ! 1, lon2 m ! 1) =
          (if fst (inverse_pt chart_geod ([0, 0] ! 1) ([8, 0] ! 1) 0 10) < [5, 5] ! 1
           then (0, 10)
           else (fst (direct_pt chart_geod ([0, 0] ! 1) ([8, 0] ! 1) ([90, 90] ! 1) ([5, 5] ! 1)),
                 fst (snd (direct_pt chart_geod ([0, 0] ! 1) ([8, 0] ! 1) ([90, 90] ! 1)
                             ([5, 5] ! 1)))))"
    by blast
  from run have m: "m = \<lparr>azi2 = [90, 90], lat2 = [0, 0], lon2 = [10, 10]\<rparr>"
    by (simp add: check_bearing_near_far)
  from pos show False
    unfolding m by (simp add: chart_geod_def)
qed

section \<open>Wind query\<close>




text \<open>
  The relative wind angle of \<^verbatim>\<open>move_boat_direct\<close> is never built by an \<^verbatim>\<open>IsoBased\<close> object:
  the subtraction meets the \<^verbatim>\<open>None\<close> of the later \<^verbatim>\<open>get_current_azimuth\<close>.
\<close>

lemma move_boat_direct_wind_raises:
  "move_boat_direct_wind wt self =
     (case get_wind_functions wt self of Inl e \<Rightarrow> Inl e | Inr w \<Rightarrow> Inl TypeError)"
  by (simp add: move_boat_direct_wind_def ebind_def np_subtract_def get_current_azimuth_def
      split: sum.splits)

lemma relative_wind_of_shadowed_method:
  "length (get_current_azimuth_shadowed self) = length (twa w) \<Longrightarrow>
   np_subtract (twa w) (Some (get_current_azimuth_shadowed self)) =
     Inr (map (\<lambda>(a, h). a - h) (zip (twa w) (current_variant self)))"
  by (simp add: np_subtract_def get_current_azimuth_shadowed_def)

section \<open>Shape check after variant expansion\<close>

text \<open>
  A successful \<open>define_variants\<close> changes neither the number of rows of a per-step
  container nor the step counter.
\<close>

lemma define_variants_keeps_rows:
  assumes "define_variants g ops self = Inr self'"
  shows "length (lats_per_step self') = length (lats_per_step self) \<and>
         length (lons_per_step self') = length (lons_per_step self) \<and>
         length (azimuth_per_step self') = length (azimuth_per_step self) \<and>
         length (dist_per_step self') = length (dist_per_step self) \<and>
         count self' = count self"
  using assms
  by (auto simp: define_variants_def Let_def ebind_def np_repeat_axis1_def np_repeat_def
      check_variant_def_def np_linspace_def split: sum.splits if_splits)

text \<open>
  Claim C6 on the code. \<open>define_variants\<close> calls \<^verbatim>\<open>self.check_variant_def()\<close>, and the class
  binds that name to the \<^verbatim>\<open>pass\<close> of line 623, not to the check of line 217. On a state
  with one row in each container and \<open>count = 5\<close> the expansion returns normally, with
  one row and \<open>count + 1 = 6\<close>; the check of line 217 would have raised \<^verbatim>\<open>ValueError\<close>
  on the expanded state.
\<close>

theorem define_variants_skips_shape_check:
  "\<exists>s. define_variants chart_geod no_shipparams (two_routes\<lparr>count := 5\<rparr>) = Inr s \<and>
       length (lats_per_step s) = 1 \<and> count s + 1 = 6 \<and>
       check_variant_def s = Inr () \<and>
       check_variant_def_shadowed s = Inl ValueError"
proof -
  have h1: "lats_per_step (two_routes\<lparr>count := 5\<rparr>) = [0, 1] # []"
    and h2: "lons_per_step (two_routes\<lparr>count := 5\<rparr>) = [0, 0] # []"
    and h3: "length [0::real, 0] = length [0::real, 1]"
    and h4: "0 \<le> variant_segments (two_routes\<lparr>count := 5\<rparr>)"
    by (simp_all add: two_routes_def)
  note run = define_variants_result [OF h1 h2 h3 h4, of chart_geod no_shipparams]
  show ?thesis
    apply (rule exI, rule conjI, rule run)
    apply (simp add: check_variant_def_def check_variant_def_shadowed_def ncols_map_repeat1)
    apply (simp add: two_routes_def ncols_def)
    done
qed

section \<open>Termination\<close>

lemma terminate_reverses:
  "lats_per_step (snd (terminate ops ra self)) = rev (lats_per_step self) \<and>
   lons_per_step (snd (terminate ops ra self)) = rev (lons_per_step self) \<and>
   azimuth_per_step (snd (terminate ops ra self)) = rev (azimuth_per_step self) \<and>
   dist_per_step (snd (terminate ops ra self)) = rev (dist_per_step self) \<and>
   starttime_per_step (snd (terminate ops ra self)) = rev (starttime_per_step self) \<and>
   shipparams_per_step (snd (terminate ops ra self)) = sp_flip ops (shipparams_per_step self)"
  by (simp add: terminate_def Let_def)

lemma terminate_departure_first:
  "lats_per_step self \<noteq> [] \<Longrightarrow>
   hd (lats_per_step (snd (terminate ops ra self))) = last (lats_per_step self) \<and>
   last (lats_per_step (snd (terminate ops ra self))) = hd (lats_per_step self)"
  by (simp add: terminate_def Let_def hd_rev last_rev)

text \<open>
  What the \<^verbatim>\<open>np.argmax\<close> of the earlier \<^verbatim>\<open>get_final_index\<close> computes: the first column of
  maximal progress.
\<close>

lemma argmax_from_first_max:
  assumes "length p = i" "bi < i" "p ! bi = best"
    and "\<forall>j<i. p ! j \<le> best" and "\<forall>j<bi. p ! j < best"
  shows "argmax_from xs i best bi < i + length xs \<and>
         (\<forall>j < i + length xs. (p @ xs) ! j \<le> (p @ xs) ! argmax_from xs i best bi) \<and>
         (\<forall>j < argmax_from xs i best bi. (p @ xs) ! j < (p @ xs) ! argmax_from xs i best bi)"
  using assms
proof (induction xs arbitrary: p i best bi)
  case Nil
  then show ?case by (simp add: nth_append)
next
  case (Cons x xs)
  show ?case
  proof (cases "best < x")
    case True
    have len: "length (p @ [x]) = i + 1" using Cons.prems(1) by simp
    have at: "(p @ [x]) ! i = x" using Cons.prems(1) by (simp add: nth_append)
    have le: "\<forall>j<i + 1. (p @ [x]) ! j \<le> x"
    proof (intro allI impI)
      fix j assume "j < i + 1"
      then show "(p @ [x]) ! j \<le> x"
        using Cons.prems(1,4) True by (cases "j < i") (auto simp: nth_append less_Suc_eq)
    qed
    have lt: "\<forall>j<i. (p @ [x]) ! j < x"
      using Cons.prems(1,4) True by (auto simp: nth_append)
    from Cons.IH [OF len _ at le lt, of ] True
    show ?thesis by simp
  next
    case False
    have len: "length (p @ [x]) = i + 1" using Cons.prems(1) by simp
    have bi: "bi < i + 1" using Cons.prems(2) by simp
    have at: "(p @ [x]) ! bi = best" using Cons.prems(1,2,3) by (simp add: nth_append)
    have le: "\<forall>j<i + 1. (p @ [x]) ! j \<le> best"
    proof (intro allI impI)
      fix j assume "j < i + 1"
      then show "(p @ [x]) ! j \<le> best"
        using Cons.prems(1,4) False by (cases "j < i") (auto simp: nth_append less_Suc_eq)
    qed
    have lt: "\<forall>j<bi. (p @ [x]) ! j < best"
      using Cons.prems(1,2,5) by (auto simp: nth_append)
    from Cons.IH [OF len bi at le lt] False
    show ?thesis by simp
  qed
qed

lemma np_argmax_first_max:
  assumes "np_argmax v = Inr k"
  shows "k < length v \<and> (\<forall>j < length v. v ! j \<le> v ! k) \<and> (\<forall>j < k. v ! j < v ! k)"
proof (cases v)
  case Nil
  with assms show ?thesis by (simp add: np_argmax_def)
next
  case (Cons x xs)
  with assms have k: "k = argmax_from xs 1 x 0" by (simp add: np_argmax_def)
  have "argmax_from xs 1 x 0 < 1 + length xs \<and>
         (\<forall>j < 1 + length xs. ([x] @ xs) ! j \<le> ([x] @ xs) ! argmax_from xs 1 x 0) \<and>
         (\<forall>j < argmax_from xs 1 x 0. ([x] @ xs) ! j < ([x] @ xs) ! argmax_from xs 1 x 0)"
    by (rule argmax_from_first_max) simp_all
  with k Cons show ?thesis by simp
qed

text \<open>
  Claim C8 on the code. The rows of every per-step container are reversed
  (\<open>terminate_reverses\<close>), but the index of the winning column is not computed:
  \<^verbatim>\<open>get_final_index\<close> is bound to the \<^verbatim>\<open>pass\<close> of line 644 and returns \<^verbatim>\<open>None\<close>, where the
  \<^verbatim>\<open>np.argmax\<close> of line 433 would have returned column 1 for the progress 1, 3, 2
  (\<open>np_argmax_first_max\<close>).
\<close>

theorem get_final_index_is_none:
  "get_final_index (three_routes\<lparr>full_dist_traveled := [1, 3, 2]\<rparr>) = None \<and>
   get_final_index_shadowed (three_routes\<lparr>full_dist_traveled := [1, 3, 2]\<rparr>) = Inr 1"
  by (simp add: get_final_index_def get_final_index_shadowed_def np_argmax_def)

section \<open>Pruning\<close>

subsection \<open>Evaluation on the concrete states\<close>

lemma upt_2: "[0..<2] = [0, 1]" by (simp add: upt_conv_Cons)







subsection \<open>Indices chosen by a pass\<close>

lemma where_eq_iff: "j \<in> set (where_eq v s) \<longleftrightarrow> j < length v \<and> v ! j = s"
  by (auto simp: where_eq_def)


lemma trim_idxs_bound: "j \<in> set (trim_idxs fdt bin_stat) \<Longrightarrow> j < length fdt"
proof (induction fdt bin_stat rule: trim_idxs.induct)
  case (3 fdt s bin_stat)
  show ?case
  proof (cases "s = 0")
    case True
    with 3 show ?thesis by simp
  next
    case False
    show ?thesis
    proof (cases "where_eq fdt s")
      case Nil
      with 3 False show ?thesis by simp
    next
      case (Cons k ks)
      then have "k \<in> set (where_eq fdt s)" by simp
      then have "k < length fdt" by (simp add: where_eq_iff)
      with 3 False Cons show ?thesis by auto
    qed
  qed
qed simp_all















subsection \<open>Ties between bins\<close>

lemma upt_5: "[0..<5] = [0, 1, 2, 3, 4]" by (simp add: upt_conv_Cons)

lemma upt_4: "[0..<4] = [0, 1, 2, 3]" by (simp add: upt_conv_Cons)

lemma replicate_5: "replicate 5 x = [x, x, x, x, x]" by (simp add: eval_nat_numeral)

lemma gcr_bins_mirrored_routes:
  "pruning_gcr_centered chart_geod ascending_set no_shipparams trim mirrored_routes =
     pruning ascending_set no_shipparams trim [0, 45, 90, 135, 180] mirrored_routes"
  by (simp add: pruning_gcr_centered_def Let_def ebind_def np_repeat_def repeat1_def
      np_linspace_def linspace_nat_def chart_geod_def mirrored_routes_def two_routes_def
      upt_5 replicate_5)

lemma bin_members_mirrored:
  "bin_members [0, 45, 90, 135, 180] 1 [100, 80] = [1]"
  "bin_members [0, 45, 90, 135, 180] 2 [100, 80] = [0]"
  by (simp_all add: bin_members_def in_bin_def upt_2 numeral_2_eq_2)

lemma binned_statistic_mirrored:
  "binned_statistic [100, 80] [5, 5] [0, 45, 90, 135, 180] = Inr [None, Some 5, Some 5, None]"
  by (simp add: binned_statistic_def bin_members_def in_bin_def nanmax_def upt_2 upt_4
      eval_nat_numeral)

lemma pruning_mirrored_routes:
  "pruning ascending_set no_shipparams True [0, 45, 90, 135, 180] mirrored_routes =
     Inr (mirrored_routes\<lparr>lats_per_step := [[0]], lons_per_step := [[0]],
        azimuth_per_step := [[None]],
        dist_per_step := [[0]], starttime_per_step := [[0]], current_azimuth := [100],
        current_variant := [100], full_dist_traveled := [5], full_time_traveled := [0],
        full_fuel_consumed := [0], time := [0]\<rparr>)"
  by (simp add: pruning_def ebind_def binned_statistic_mirrored Let_def ascending_set_def reraise_pruned_def
      take_cols_def take_idxs_def no_shipparams_def mirrored_routes_def two_routes_def
      where_eq_def)

lemma trim_idxs_zero_bin: "trim_idxs fdt (Some 0 # bin_stat) = trim_idxs fdt bin_stat"
  by simp

lemma trim_idxs_empty_bin: "trim_idxs fdt (None # bin_stat) = trim_idxs fdt bin_stat"
  by simp

lemma trim_idxs_value:
  "j \<in> set (trim_idxs fdt bin_stat) \<Longrightarrow> fdt ! j \<noteq> 0 \<and> Some (fdt ! j) \<in> set bin_stat"
proof (induction fdt bin_stat rule: trim_idxs.induct)
  case (3 fdt s bin_stat)
  show ?case
  proof (cases "s = 0")
    case True
    with 3 show ?thesis by simp
  next
    case False
    show ?thesis
    proof (cases "where_eq fdt s")
      case Nil
      with 3 False show ?thesis by simp
    next
      case (Cons k ks)
      then have "k \<in> set (where_eq fdt s)" by simp
      then have "fdt ! k = s" by (simp add: where_eq_iff)
      with 3 False Cons show ?thesis by auto
    qed
  qed
qed simp_all

text \<open>
  Without ties in \<open>full_dist_traveled\<close> the lookup by value finds the candidate of the
  bin: every index kept by the \<open>trim\<close> loop then belongs to some bin, has the largest
  progress of that bin, and that progress is not 0.
\<close>

lemma nanmax_Some:
  assumes "nanmax vs = Some s"
  shows "s \<in> set vs \<and> (\<forall>v \<in> set vs. v \<le> s)"
proof (cases vs)
  case Nil
  with assms show ?thesis by (simp add: nanmax_def)
next
  case (Cons v rest)
  with assms have "s = fold max rest v" by (simp add: nanmax_def)
  then have s: "s = Max (set (v # rest))" by (simp only: Max.set_eq_fold)
  have "Max (set (v # rest)) \<in> set (v # rest)" by (rule Max_in) simp_all
  moreover have "\<forall>w \<in> set (v # rest). w \<le> Max (set (v # rest))" by simp
  ultimately show ?thesis using s Cons by simp
qed

lemma bin_members_bound: "m \<in> set (bin_members edges b x) \<Longrightarrow> m < length x"
  by (simp add: bin_members_def)

lemma trim_survivor_in_bin_without_ties:
  assumes nodup: "distinct fdt"
    and bs: "binned_statistic x fdt edges = Inr bin_stat"
    and j: "j \<in> set (trim_idxs fdt bin_stat)"
  shows "\<exists>b < length edges - 1. j \<in> set (bin_members edges b x) \<and>
           (\<forall>m \<in> set (bin_members edges b x). fdt ! m \<le> fdt ! j) \<and> fdt ! j \<noteq> 0"
proof -
  from bs have len: "length x = length fdt"
    and stat: "bin_stat = map (\<lambda>i. nanmax (map (\<lambda>j. fdt ! j) (bin_members edges i x)))
                            [0..<length edges - 1]"
    by (auto simp: binned_statistic_def split: if_splits)
  from j have jn: "j < length fdt" by (rule trim_idxs_bound)
  from trim_idxs_value [OF j] have nz: "fdt ! j \<noteq> 0" and mem: "Some (fdt ! j) \<in> set bin_stat"
    by simp_all
  from mem stat obtain b where b: "b < length edges - 1"
    and mx: "nanmax (map (\<lambda>j. fdt ! j) (bin_members edges b x)) = Some (fdt ! j)"
    by auto
  from nanmax_Some [OF mx] obtain m where m: "m \<in> set (bin_members edges b x)"
    and eq: "fdt ! m = fdt ! j"
    and top: "\<forall>k \<in> set (bin_members edges b x). fdt ! k \<le> fdt ! j"
    by auto
  from m have "m < length fdt" using len by (auto dest: bin_members_bound)
  with eq jn nodup have "m = j" by (simp add: nth_eq_iff_index_eq)
  with m top nz b show ?thesis by blast
qed

text \<open>
  Claim C1 on the code. The survivor of a bin is looked up by value in the whole array
  \<open>full_dist_traveled\<close> (\<open>trim_idxs\<close>, \<open>where_eq\<close>), not among the candidates of the bin. Two
  candidates with the headings 100 and 80, mirrored about the axis 90, have the same
  progress 5. The bin from 45 to 90 holds only the second candidate, yet the pass keeps
  the first one for it, whose heading 100 lies outside that bin, and the second
  candidate is discarded. A bin whose statistic is 0 or NaN adds no index
  (\<open>trim_idxs_zero_bin\<close>, \<open>trim_idxs_empty_bin\<close>), and without ties the survivors are
  as claimed (\<open>trim_survivor_in_bin_without_ties\<close>).
\<close>

theorem pruning_survivor_outside_bin:
  "bin_members [0, 45, 90, 135, 180] 1 (current_variant mirrored_routes) = [1] \<and>
   \<not> in_bin [0, 45, 90, 135, 180] 1 100 \<and>
   (\<exists>s. pruning_gcr_centered chart_geod ascending_set no_shipparams True mirrored_routes = Inr s \<and>
        current_variant s = [100] \<and> full_dist_traveled s = [5] \<and> ncols (lats_per_step s) = 1)"
proof -
  have "pruning_gcr_centered chart_geod ascending_set no_shipparams True mirrored_routes =
     Inr (mirrored_routes\<lparr>lats_per_step := [[0]], lons_per_step := [[0]],
        azimuth_per_step := [[None]],
        dist_per_step := [[0]], starttime_per_step := [[0]], current_azimuth := [100],
        current_variant := [100], full_dist_traveled := [5], full_time_traveled := [0],
        full_fuel_consumed := [0], time := [0]\<rparr>)"
    by (simp only: gcr_bins_mirrored_routes pruning_mirrored_routes)
  moreover have "bin_members [0, 45, 90, 135, 180] 1 (current_variant mirrored_routes) = [1]"
    by (simp add: mirrored_routes_def two_routes_def bin_members_def in_bin_def upt_2
        numeral_2_eq_2)
  moreover have "\<not> in_bin [0, 45, 90, 135, 180] 1 100"
    by (simp add: in_bin_def)
  ultimately show ?thesis by (simp add: ncols_def)
qed

end
